theory Spec2Isabelle
  imports
    Main
    "HOL-Library.Char_ord"
    "HOL-Library.List_Lexorder"
    "HOL-Library.Option_ord"
    "HOL-Library.Product_Lexorder"
begin

section \<open>The persisted tables\<close>

text \<open>
  The program keeps its state in one SQLite file with the tables \<open>users\<close>, \<open>patients\<close>
  and \<open>visits\<close> created by \<open>ensure_db\<close>. A row is a record whose fields are the columns,
  prefixed with the alias the queries use (\<open>u.\<close>, \<open>p.\<close>, \<open>v.\<close>). A column declared
  \<open>NOT NULL\<close> holds a value, any other column holds \<open>None\<close> for SQL \<open>NULL\<close>. Text is a
  \<open>string\<close> (a list of bytes, compared bytewise as SQLite's default collation does),
  a row id is an \<open>int\<close>.

  The column \<open>vitals_json\<close> holds the text \<open>json.dumps\<close> wrote for a Python dict; it is
  represented by that dict (an association list from key to value), which is what
  \<open>json.loads\<close> gives back when the column is read.
\<close>

datatype jvalue = JStr string | JInt int | JDec int int
  \<comment> \<open>\<open>JDec m e\<close> is the decimal number \<open>m * 10^e\<close>, e.g. a temperature 98.6\<close>

type_synonym vitals = "(string \<times> jvalue) list"

record user =
  u_id :: int
  u_name :: string
  u_mobile :: string
  u_password_hash :: string
  u_role :: string

record patient =
  p_id :: int
  p_full_name :: string
  p_address :: "string option"
  p_dob :: "string option"
  p_created_at :: string

record visit =
  v_id :: int
  v_patient_id :: int
  v_assigned_doctor_id :: "int option"
  v_date :: string
  v_time_in :: "string option"
  v_time_out :: "string option"
  v_service :: "string option"
  v_status :: "string option"
  v_vitals_json :: "vitals option"
  v_doctor_notes :: "string option"
  v_pharmacy_instructions :: "string option"
  v_pharmacy_status :: "string option"

text \<open>
  The database: the three tables, each a list of rows, and for the two tables the program
  inserts into the counter SQLite keeps for an \<open>AUTOINCREMENT\<close> key (the largest row id
  the table ever had).
\<close>

record db =
  users :: "user list"
  patients :: "patient list"
  visits :: "visit list"
  patients_seq :: int
  visits_seq :: int

text \<open>
  The errors the operations modelled here can end in, all raised by the libraries:
  \<open>sqlite3.IntegrityError\<close>, when a statement would store \<open>NULL\<close> in a \<open>NOT NULL\<close>
  column; \<open>OverflowError\<close>, from date arithmetic that leaves the range of \<open>date\<close> and
  from binding an integer beyond 64 bits to a statement; \<open>sqlite3.OperationalError\<close>,
  when an insert finds the row ids of the table used up and when a \<open>LIKE\<close> pattern is
  longer than SQLite allows. No method of class \<open>DB\<close> raises an error of its own. The schema of one of the
  two source files declares foreign keys on \<open>visits\<close>, the other does not; neither file
  switches enforcement on (there is no \<open>PRAGMA foreign_keys\<close>), and SQLite does not
  enforce them unless asked, so a foreign key is never checked.
\<close>

datatype error = IntegrityError | OverflowError | OperationalError

section \<open>The SQL statements as list operations\<close>

definition fits_int64 :: "int \<Rightarrow> bool" where
  "fits_int64 n = (- (2 ^ 63) \<le> n \<and> n < 2 ^ 63)"

definition bindable :: "int option \<Rightarrow> bool" where
  \<comment> \<open>a Python \<open>int\<close> or \<open>None\<close> given for a \<open>?\<close>: \<open>execute\<close> raises \<open>OverflowError\<close> on an
      \<open>int\<close> beyond 64 bits, before the statement runs\<close>
  "bindable x = (case x of None \<Rightarrow> True | Some n \<Rightarrow> fits_int64 n)"

definition next_rowid :: "int \<Rightarrow> int list \<Rightarrow> error + int" where
  \<comment> \<open>the key of an inserted row: one more than the largest key the table ever had; once
      that was the largest 64-bit integer the insert fails (\<open>database or disk is full\<close>)\<close>
  "next_rowid seq ids =
     (let m = fold max ids seq in if 2 ^ 63 - 1 \<le> m then Inl OperationalError else Inr (m + 1))"

definition sql_update :: "('r \<Rightarrow> bool) \<Rightarrow> ('r \<Rightarrow> 'r) \<Rightarrow> 'r list \<Rightarrow> 'r list" where
  \<comment> \<open>\<open>UPDATE t SET ... WHERE cond\<close>\<close>
  "sql_update cond f rows = map (\<lambda>r. if cond r then f r else r) rows"

definition inner_join :: "('a \<Rightarrow> 'b \<Rightarrow> bool) \<Rightarrow> 'a list \<Rightarrow> 'b list \<Rightarrow> ('a \<times> 'b) list" where
  \<comment> \<open>\<open>a JOIN b ON cond\<close>: every pair of rows that satisfies \<open>cond\<close>\<close>
  "inner_join cond as bs = concat (map (\<lambda>a. map (\<lambda>b. (a, b)) (filter (cond a) bs)) as)"

definition left_join :: "('a \<Rightarrow> 'b \<Rightarrow> bool) \<Rightarrow> 'a list \<Rightarrow> 'b list \<Rightarrow> ('a \<times> 'b option) list" where
  \<comment> \<open>\<open>a LEFT JOIN b ON cond\<close>: a left row without a partner is kept, with \<open>NULL\<close>s\<close>
  "left_join cond as bs =
     concat (map (\<lambda>a. case filter (cond a) bs of
                          [] \<Rightarrow> [(a, None)]
                        | ms \<Rightarrow> map (\<lambda>b. (a, Some b)) ms) as)"

definition order_by_desc :: "('r \<Rightarrow> 'k::linorder) \<Rightarrow> 'r list \<Rightarrow> 'r list" where
  \<comment> \<open>\<open>ORDER BY key DESC\<close>; SQL leaves the order of rows with equal keys open\<close>
  "order_by_desc key rows = rev (sort_key key rows)"

definition col_eq :: "'a option \<Rightarrow> 'a \<Rightarrow> bool" where
  \<comment> \<open>\<open>col = value\<close> in a \<open>WHERE\<close> clause: a \<open>NULL\<close> column never satisfies it\<close>
  "col_eq c x = (c = Some x)"

definition truthy :: "string option \<Rightarrow> bool" where
  \<comment> \<open>Python's truth value of a string or \<open>None\<close>\<close>
  "truthy s = (case s of None \<Rightarrow> False | Some t \<Rightarrow> t \<noteq> [])"

definition str_or :: "string option \<Rightarrow> string \<Rightarrow> string" where
  \<comment> \<open>Python's \<open>s or dflt\<close>\<close>
  "str_or s dflt = (case s of None \<Rightarrow> dflt | Some t \<Rightarrow> if t = [] then dflt else t)"

definition dumps_if :: "vitals option \<Rightarrow> vitals option" where
  \<comment> \<open>\<open>json.dumps(vitals_dict) if vitals_dict else None\<close>: an empty dict is false\<close>
  "dumps_if vd = (case vd of None \<Rightarrow> None | Some d \<Rightarrow> if d = [] then None else Some d)"

section \<open>Class DB: the write operations\<close>

text \<open>
  Every method opens a connection, runs one statement, commits and closes; the model
  takes the database and returns the new one. A method that reads the clock takes the
  reading as an argument: \<open>now\<close> stands for \<open>datetime.now().isoformat()\<close> in
  \<open>add_patient\<close> and for \<open>datetime.now().strftime("%H:%M")\<close> in
  \<open>update_pharmacy_status_and_timeout\<close>. An argument that Python may pass as \<open>None\<close> is
  an option. When the statement raises, nothing is committed. An insert that raises does
  so for the first of these that applies: a parameter that cannot be bound, no row id
  left, a \<open>NULL\<close> for a \<open>NOT NULL\<close> column.

  The repository holds two files \<open>HMS.py\<close>. A method whose text is the same in both is
  modelled once. Where the two differ, the method of \<open>src/HMS.py\<close> keeps its name and
  the one of \<open>src/HospitalManagementSystem-Python/HMS.py\<close> has the suffix \<open>_sub\<close>.
\<close>

definition add_patient ::
  "db \<Rightarrow> string \<Rightarrow> string option \<Rightarrow> string option \<Rightarrow> string option \<Rightarrow> error + (int \<times> db)" where
  "add_patient d now full_name address dob =
     (case next_rowid (patients_seq d) (map p_id (patients d)) of
        Inl e \<Rightarrow> Inl e
      | Inr pid \<Rightarrow>
          (case full_name of
             None \<Rightarrow> Inl IntegrityError
           | Some name \<Rightarrow>
               Inr (pid,
                    d\<lparr>patients := patients d @
                         [\<lparr>p_id = pid, p_full_name = name, p_address = address,
                           p_dob = Some (str_or dob []), p_created_at = now\<rparr>],
                      patients_seq := pid\<rparr>)))"

definition insert_visit ::
  "db \<Rightarrow> int option \<Rightarrow> int option \<Rightarrow> string option \<Rightarrow> string option \<Rightarrow> string option \<Rightarrow>
   string option \<Rightarrow> string option \<Rightarrow> vitals option \<Rightarrow> string option \<Rightarrow> string option \<Rightarrow>
   string option \<Rightarrow> error + (int \<times> db)" where
  \<comment> \<open>the \<open>INSERT INTO visits\<close> statement both files run, with its eleven values\<close>
  "insert_visit d patient_id assigned_doctor_id visit_date time_in time_out service status
       vitals_json doctor_notes pharmacy_instructions pharmacy_status =
     (if \<not> bindable patient_id \<or> \<not> bindable assigned_doctor_id then Inl OverflowError
      else case next_rowid (visits_seq d) (map v_id (visits d)) of
        Inl e \<Rightarrow> Inl e
      | Inr vid \<Rightarrow>
          (case (patient_id, visit_date) of
             (Some pid, Some date_s) \<Rightarrow>
               Inr (vid,
                    d\<lparr>visits := visits d @
                       [\<lparr>v_id = vid, v_patient_id = pid, v_assigned_doctor_id = assigned_doctor_id,
                         v_date = date_s, v_time_in = time_in, v_time_out = time_out,
                         v_service = service, v_status = status, v_vitals_json = vitals_json,
                         v_doctor_notes = doctor_notes,
                         v_pharmacy_instructions = pharmacy_instructions,
                         v_pharmacy_status = pharmacy_status\<rparr>],
                      visits_seq := vid\<rparr>)
           | _ \<Rightarrow> Inl IntegrityError))"

definition add_visit ::
  "db \<Rightarrow> int option \<Rightarrow> int option \<Rightarrow> string option \<Rightarrow> string option \<Rightarrow> string option \<Rightarrow>
   string option \<Rightarrow> string option \<Rightarrow> vitals option \<Rightarrow> string option \<Rightarrow> string option \<Rightarrow>
   error + (int \<times> db)" where
  \<comment> \<open>\<open>src/HMS.py\<close>: the last value is the constant \<open>"Pending"\<close>\<close>
  "add_visit d patient_id assigned_doctor_id visit_date time_in time_out service status
       vitals_dict doctor_notes pharmacy_instructions =
     insert_visit d patient_id assigned_doctor_id visit_date time_in time_out service status
       (dumps_if vitals_dict) doctor_notes pharmacy_instructions (Some ''Pending'')"

definition add_visit_sub ::
  "db \<Rightarrow> int option \<Rightarrow> int option \<Rightarrow> string option \<Rightarrow> string option \<Rightarrow> string option \<Rightarrow>
   string option \<Rightarrow> string option \<Rightarrow> vitals option \<Rightarrow> string option \<Rightarrow> string option \<Rightarrow>
   error + (int \<times> db)" where
  \<comment> \<open>\<open>src/HospitalManagementSystem-Python/HMS.py\<close>:
      \<open>"Pending" if status == "Visit Pharmacy" else "Not Applicable"\<close>\<close>
  "add_visit_sub d patient_id assigned_doctor_id visit_date time_in time_out service status
       vitals_dict doctor_notes pharmacy_instructions =
     insert_visit d patient_id assigned_doctor_id visit_date time_in time_out service status
       (dumps_if vitals_dict) doctor_notes pharmacy_instructions
       (Some (if status = Some ''Visit Pharmacy'' then ''Pending'' else ''Not Applicable''))"


definition update_visit_status ::
  "db \<Rightarrow> int \<Rightarrow> string option \<Rightarrow> string option \<Rightarrow> string option \<Rightarrow> db" where
  \<comment> \<open>\<open>src/HMS.py\<close>: \<open>doctor_notes\<close> is written in both branches\<close>
  "update_visit_status d visit_id new_status doctor_notes pharmacy_instructions =
     (if truthy pharmacy_instructions
      then d\<lparr>visits := sql_update (\<lambda>v. v_id v = visit_id)
               (\<lambda>v. v\<lparr>v_status := new_status, v_doctor_notes := doctor_notes,
                       v_pharmacy_instructions := pharmacy_instructions\<rparr>)
               (visits d)\<rparr>
      else d\<lparr>visits := sql_update (\<lambda>v. v_id v = visit_id)
               (\<lambda>v. v\<lparr>v_status := new_status, v_doctor_notes := doctor_notes\<rparr>)
               (visits d)\<rparr>)"

text \<open>
  In the other file the statement is assembled from the arguments that are not \<open>None\<close>:
  the list \<open>updates\<close> of assignments becomes the list of field updates applied, in order,
  to the row.
\<close>

definition update_visit_status_sub ::
  "db \<Rightarrow> int \<Rightarrow> string option \<Rightarrow> string option \<Rightarrow> string option \<Rightarrow> vitals option \<Rightarrow> db" where
  "update_visit_status_sub d visit_id new_status doctor_notes pharmacy_instructions vitals_dict =
     (let updates =
            [\<lambda>v. v\<lparr>v_status := new_status\<rparr>]
            @ (if doctor_notes \<noteq> None then [\<lambda>v. v\<lparr>v_doctor_notes := doctor_notes\<rparr>] else [])
            @ (if pharmacy_instructions \<noteq> None
               then [\<lambda>v. v\<lparr>v_pharmacy_instructions := pharmacy_instructions\<rparr>] else [])
            @ (if vitals_dict \<noteq> None then [\<lambda>v. v\<lparr>v_vitals_json := vitals_dict\<rparr>] else [])
      in d\<lparr>visits := sql_update (\<lambda>v. v_id v = visit_id) (\<lambda>v. fold (\<lambda>u r. u r) updates v)
             (visits d)\<rparr>)"

definition update_pharmacy_status_and_timeout :: "db \<Rightarrow> string \<Rightarrow> int \<Rightarrow> string option \<Rightarrow> db" where
  \<comment> \<open>\<open>src/HMS.py\<close>\<close>
  "update_pharmacy_status_and_timeout d now visit_id new_status =
     (if new_status = Some ''Completed''
      then d\<lparr>visits := sql_update (\<lambda>v. v_id v = visit_id)
               (\<lambda>v. v\<lparr>v_pharmacy_status := new_status, v_time_out := Some now\<rparr>) (visits d)\<rparr>
      else d\<lparr>visits := sql_update (\<lambda>v. v_id v = visit_id)
               (\<lambda>v. v\<lparr>v_pharmacy_status := new_status\<rparr>) (visits d)\<rparr>)"

definition update_pharmacy_status_and_timeout_sub ::
  "db \<Rightarrow> string \<Rightarrow> int \<Rightarrow> string option \<Rightarrow> db" where
  \<comment> \<open>\<open>src/HospitalManagementSystem-Python/HMS.py\<close>: also \<open>status = 'Done'\<close>\<close>
  "update_pharmacy_status_and_timeout_sub d now visit_id new_status =
     (if new_status = Some ''Completed''
      then d\<lparr>visits := sql_update (\<lambda>v. v_id v = visit_id)
               (\<lambda>v. v\<lparr>v_pharmacy_status := new_status, v_status := Some ''Done'',
                       v_time_out := Some now\<rparr>) (visits d)\<rparr>
      else d\<lparr>visits := sql_update (\<lambda>v. v_id v = visit_id)
               (\<lambda>v. v\<lparr>v_pharmacy_status := new_status\<rparr>) (visits d)\<rparr>)"

text \<open>
  Two readers that are not methods of the class: the stored row under a key, used to say
  what a write stored. (\<open>get_patient\<close> returns the same patient row, as a dict.)
\<close>

definition visit_by_id :: "db \<Rightarrow> int \<Rightarrow> visit option" where
  \<comment> \<open>the stored row with a given key (\<open>SELECT * FROM visits WHERE id = ?\<close>, first row)\<close>
  "visit_by_id d visit_id = find (\<lambda>v. v_id v = visit_id) (visits d)"

definition patient_by_id :: "db \<Rightarrow> int \<Rightarrow> patient option" where
  "patient_by_id d patient_id = find (\<lambda>p. p_id p = patient_id) (patients d)"

section \<open>Calendar dates\<close>

text \<open>
  \<open>get_patient_visit_history\<close> computes its window with Python's \<open>date\<close>:
  \<open>date.today()\<close>, \<open>date - timedelta(days=n)\<close> and \<open>isoformat()\<close>. A date is the
  triple of its attributes; subtracting days walks the proleptic Gregorian calendar one
  day at a time, and leaves the range \<open>0001-01-01 .. 9999-12-31\<close> with Python's
  \<open>OverflowError\<close>.
\<close>

record pydate =
  year :: nat
  month :: nat
  day :: nat

definition is_leap :: "nat \<Rightarrow> bool" where
  "is_leap y = (y mod 4 = 0 \<and> (y mod 100 \<noteq> 0 \<or> y mod 400 = 0))"

definition days_in_month :: "nat \<Rightarrow> nat \<Rightarrow> nat" where
  "days_in_month y m =
     (if m = 2 then (if is_leap y then 29 else 28)
      else if m = 4 \<or> m = 6 \<or> m = 9 \<or> m = 11 then 30 else 31)"

definition valid_date :: "pydate \<Rightarrow> bool" where
  "valid_date dt =
     (1 \<le> year dt \<and> year dt \<le> 9999 \<and> 1 \<le> month dt \<and> month dt \<le> 12 \<and>
      1 \<le> day dt \<and> day dt \<le> days_in_month (year dt) (month dt))"

definition date_key :: "pydate \<Rightarrow> nat \<times> nat \<times> nat" where
  \<comment> \<open>dates are ordered by year, then month, then day\<close>
  "date_key dt = (year dt, month dt, day dt)"

definition prev_day :: "pydate \<Rightarrow> pydate option" where
  "prev_day dt =
     (if 1 < day dt then Some (dt\<lparr>day := day dt - 1\<rparr>)
      else if 1 < month dt
        then Some (dt\<lparr>month := month dt - 1, day := days_in_month (year dt) (month dt - 1)\<rparr>)
      else if 1 < year dt then Some \<lparr>year = year dt - 1, month = 12, day = 31\<rparr>
      else None)"




definition dec_digit :: "nat \<Rightarrow> char" where
  "dec_digit n = char_of (48 + n)"

definition two_digits :: "nat \<Rightarrow> string" where
  \<comment> \<open>\<open>"%02d" % n\<close> for \<open>n < 100\<close>\<close>
  "two_digits n = [dec_digit (n div 10), dec_digit (n mod 10)]"

definition four_digits :: "nat \<Rightarrow> string" where
  \<comment> \<open>\<open>"%04d" % n\<close> for \<open>n < 10000\<close>\<close>
  "four_digits n = two_digits (n div 100) @ two_digits (n mod 100)"


section \<open>Search terms\<close>















section \<open>Class DB: the read operations\<close>

text \<open>
  A read method runs one \<open>SELECT\<close> and builds a Python dict from each row. The dicts
  are records whose fields are the keys. The keys all the dicts share come first; the
  dict of \<open>get_visits_for_doctor\<close> adds the visit and patient keys, the dict of
  \<open>get_visits_for_pharmacy\<close> and \<open>search_visits\<close> adds \<open>doctor_name\<close> to those, and the
  dict of \<open>get_visit\<close> adds \<open>assigned_doctor_id\<close> again. The key \<open>id\<close> of the history
  dict is the field \<open>id_h\<close>. The keys being constants from here on, the arguments
  \<open>visit_id\<close>, \<open>patient_id\<close> and \<open>doctor_id\<close> of the read methods are written \<open>vid\<close>,
  \<open>pid\<close> and \<open>doc_id\<close>.
\<close>

record visit_fields =
  date :: string
  time_in :: "string option"
  time_out :: "string option"
  service :: "string option"
  status :: "string option"
  vitals :: vitals
  "notes" :: "string option"
  pharmacy_instructions :: "string option"
  pharmacy_status :: "string option"

record history_dict = visit_fields +
  id_h :: int
  doctor_id :: "int option"
  doctor_name :: "string option"

record visit_dict = visit_fields +
  visit_id :: int
  patient_id :: int
  patient_name :: string

record pharmacy_dict = visit_dict +
  doctor_name :: "string option"

record detail_dict = pharmacy_dict +
  assigned_doctor_id :: "int option"

definition loads_or_empty :: "vitals option \<Rightarrow> vitals" where
  \<comment> \<open>\<open>json.loads(vitals_json) if vitals_json else {}\<close>\<close>
  "loads_or_empty vj = (case vj of None \<Rightarrow> [] | Some d \<Rightarrow> d)"

definition visits_patients :: "db \<Rightarrow> (visit \<times> patient) list" where
  \<comment> \<open>\<open>FROM visits v JOIN patients p ON v.patient_id = p.id\<close>\<close>
  "visits_patients d = inner_join (\<lambda>v p. v_patient_id v = p_id p) (visits d) (patients d)"

definition doctor_of :: "visit \<Rightarrow> user \<Rightarrow> bool" where
  \<comment> \<open>\<open>ON v.assigned_doctor_id = u.id\<close>\<close>
  "doctor_of v u = col_eq (v_assigned_doctor_id v) (u_id u)"

definition visits_patients_users :: "db \<Rightarrow> ((visit \<times> patient) \<times> user option) list" where
  \<comment> \<open>\<open>... JOIN patients p ON ... LEFT JOIN users u ON v.assigned_doctor_id = u.id\<close>\<close>
  "visits_patients_users d = left_join (\<lambda>(v, p) u. doctor_of v u) (visits_patients d) (users d)"



definition order_key :: "visit \<Rightarrow> string \<times> string option" where
  \<comment> \<open>\<open>ORDER BY v.date DESC, v.time_in DESC\<close>; \<open>NULL\<close> sorts below every text\<close>
  "order_key v = (v_date v, v_time_in v)"

definition to_visit_dict :: "visit \<times> patient \<Rightarrow> visit_dict" where
  "to_visit_dict r = (case r of (v, p) \<Rightarrow>
     \<lparr>date = v_date v, time_in = v_time_in v, time_out = v_time_out v, service = v_service v,
      status = v_status v, vitals = loads_or_empty (v_vitals_json v), notes = v_doctor_notes v,
      pharmacy_instructions = v_pharmacy_instructions v, pharmacy_status = v_pharmacy_status v,
      visit_id = v_id v, patient_id = v_patient_id v, patient_name = p_full_name p\<rparr>)"

definition to_pharmacy_dict :: "(visit \<times> patient) \<times> string option \<Rightarrow> pharmacy_dict" where
  "to_pharmacy_dict r = (case r of ((v, p), doc_name) \<Rightarrow>
     \<lparr>date = v_date v, time_in = v_time_in v, time_out = v_time_out v, service = v_service v,
      status = v_status v, vitals = loads_or_empty (v_vitals_json v), notes = v_doctor_notes v,
      pharmacy_instructions = v_pharmacy_instructions v, pharmacy_status = v_pharmacy_status v,
      visit_id = v_id v, patient_id = v_patient_id v, patient_name = p_full_name p,
      doctor_name = doc_name\<rparr>)"

definition to_detail_dict :: "(visit \<times> patient) \<times> user option \<Rightarrow> detail_dict" where
  "to_detail_dict r = (case r of ((v, p), u) \<Rightarrow>
     \<lparr>date = v_date v, time_in = v_time_in v, time_out = v_time_out v, service = v_service v,
      status = v_status v, vitals = loads_or_empty (v_vitals_json v), notes = v_doctor_notes v,
      pharmacy_instructions = v_pharmacy_instructions v, pharmacy_status = v_pharmacy_status v,
      visit_id = v_id v, patient_id = v_patient_id v, patient_name = p_full_name p,
      doctor_name = map_option u_name u, assigned_doctor_id = v_assigned_doctor_id v\<rparr>)"

definition to_history_dict :: "visit \<times> user option \<Rightarrow> history_dict" where
  "to_history_dict r = (case r of (v, u) \<Rightarrow>
     \<lparr>date = v_date v, time_in = v_time_in v, time_out = v_time_out v, service = v_service v,
      status = v_status v, vitals = loads_or_empty (v_vitals_json v), notes = v_doctor_notes v,
      pharmacy_instructions = v_pharmacy_instructions v, pharmacy_status = v_pharmacy_status v,
      id_h = v_id v, doctor_id = map_option u_id u,
      history_dict.doctor_name = map_option u_name u\<rparr>)"

definition get_visit :: "db \<Rightarrow> int \<Rightarrow> detail_dict option" where
  \<comment> \<open>\<open>fetchone\<close>: the first row, or \<open>None\<close>\<close>
  "get_visit d vid =
     (case filter (\<lambda>((v, p), u). v_id v = vid) (visits_patients_users d) of
        [] \<Rightarrow> None
      | row # _ \<Rightarrow> Some (to_detail_dict row))"

definition get_visits_for_doctor :: "db \<Rightarrow> int \<Rightarrow> visit_dict list" where
  "get_visits_for_doctor d doc_id =
     map to_visit_dict
       (order_by_desc (\<lambda>(v, p). order_key v)
          (filter (\<lambda>(v, p). col_eq (v_assigned_doctor_id v) doc_id) (visits_patients d)))"

definition for_pharmacy :: "visit \<Rightarrow> bool" where
  \<comment> \<open>\<open>v.pharmacy_status = 'Pending' OR v.status = 'Visit Pharmacy'\<close>\<close>
  "for_pharmacy v = (col_eq (v_pharmacy_status v) ''Pending'' \<or> col_eq (v_status v) ''Visit Pharmacy'')"

definition get_visits_for_pharmacy :: "db \<Rightarrow> pharmacy_dict list" where
  "get_visits_for_pharmacy d =
     map (\<lambda>(vp, u). to_pharmacy_dict (vp, map_option u_name u))
       (order_by_desc (\<lambda>((v, p), u). order_key v)
          (filter (\<lambda>((v, p), u). for_pharmacy v) (visits_patients_users d)))"






section \<open>A small database\<close>

text \<open>
  Two staff users, two patients and four visits, in the shape of the rows \<open>ensure_db\<close>
  seeds. Visit 3 names a patient that does not exist; visit 4 has no doctor assigned.
\<close>

definition demo_doctor :: user where
  "demo_doctor =
     \<lparr>u_id = 3, u_name = ''Mohammed Aminu'', u_mobile = ''7681969865'',
      u_password_hash = ''x'', u_role = ''doctor''\<rparr>"

definition demo_pharmacist :: user where
  "demo_pharmacist =
     \<lparr>u_id = 5, u_name = ''Little MO'', u_mobile = ''0777730606'',
      u_password_hash = ''y'', u_role = ''pharmacist''\<rparr>"

definition demo_users :: "user list" where
  "demo_users = [demo_doctor, demo_pharmacist]"

definition demo_patient1 :: patient where
  "demo_patient1 =
     \<lparr>p_id = 1, p_full_name = ''John Doe'', p_address = Some ''123 Main St'',
      p_dob = Some ''1990-01-01'', p_created_at = ''2024-03-01T08:00:00''\<rparr>"

definition demo_patient2 :: patient where
  "demo_patient2 =
     \<lparr>p_id = 2, p_full_name = ''Jane Smith'', p_address = Some ''456 Oak Ave'',
      p_dob = Some ''1985-03-15'', p_created_at = ''2024-03-01T08:00:01''\<rparr>"

definition demo_patients :: "patient list" where
  "demo_patients = [demo_patient1, demo_patient2]"

definition demo_visit1 :: visit where
  "demo_visit1 =
     \<lparr>v_id = 1, v_patient_id = 1, v_assigned_doctor_id = Some 3, v_date = ''2024-03-10'',
      v_time_in = Some ''09:30'', v_time_out = None, v_service = Some ''General Consultation'',
      v_status = Some ''Visit Pharmacy'', v_vitals_json = Some [(''bp'', JStr ''120/80''), (''hr'', JInt 78)],
      v_doctor_notes = Some ''Needs medication review.'',
      v_pharmacy_instructions = Some ''Dispense antibiotics'', v_pharmacy_status = Some ''Pending''\<rparr>"

definition demo_visit2 :: visit where
  "demo_visit2 =
     \<lparr>v_id = 2, v_patient_id = 2, v_assigned_doctor_id = Some 3, v_date = ''2024-03-09'',
      v_time_in = Some ''10:00'', v_time_out = Some ''10:40'', v_service = Some ''General Consultation'',
      v_status = Some ''Done'', v_vitals_json = None,
      v_doctor_notes = Some ''Patient recovering well.'',
      v_pharmacy_instructions = None, v_pharmacy_status = Some ''Completed''\<rparr>"

definition demo_visit3 :: visit where
  "demo_visit3 =
     \<lparr>v_id = 3, v_patient_id = 99, v_assigned_doctor_id = Some 3, v_date = ''2024-03-10'',
      v_time_in = Some ''11:00'', v_time_out = None, v_service = Some ''Follow-up'',
      v_status = Some ''Visit Pharmacy'', v_vitals_json = None, v_doctor_notes = None,
      v_pharmacy_instructions = Some ''Dispense ibuprofen'', v_pharmacy_status = Some ''Pending''\<rparr>"

definition demo_visit4 :: visit where
  "demo_visit4 =
     \<lparr>v_id = 4, v_patient_id = 1, v_assigned_doctor_id = None, v_date = ''2024-03-05'',
      v_time_in = None, v_time_out = None, v_service = Some ''Follow-up'',
      v_status = Some ''Scheduled'', v_vitals_json = None, v_doctor_notes = None,
      v_pharmacy_instructions = None, v_pharmacy_status = Some ''Not Applicable''\<rparr>"

definition demo_db :: db where
  "demo_db =
     \<lparr>users = demo_users, patients = demo_patients,
      visits = [demo_visit1, demo_visit2, demo_visit3, demo_visit4],
      patients_seq = 2, visits_seq = 4\<rparr>"




definition empty_db :: db where
  "empty_db = \<lparr>users = [], patients = [], visits = [], patients_seq = 0, visits_seq = 0\<rparr>"

section \<open>Facts about the list operations\<close>

lemma fold_max_ge_init: "(seq::int) \<le> fold max ids seq"
  by (induction ids arbitrary: seq) (auto intro: order_trans [OF max.cobounded2])

lemma fold_max_ge_elem: "x \<in> set ids \<Longrightarrow> (x::int) \<le> fold max ids seq"
proof (induction ids arbitrary: seq)
  case Nil
  then show ?case by simp
next
  case (Cons a ids)
  show ?case
  proof (cases "x = a")
    case True
    have "a \<le> max a seq" by simp
    also have "\<dots> \<le> fold max ids (max a seq)" by (rule fold_max_ge_init)
    finally show ?thesis using True by simp
  next
    case False
    with Cons.prems have "x \<in> set ids" by simp
    then show ?thesis using Cons.IH by simp
  qed
qed

lemma fold_max_less_iff:
  "fold max ids seq < (b::int) \<longleftrightarrow> seq < b \<and> (\<forall>x \<in> set ids. x < b)"
  by (induction ids arbitrary: seq) auto

lemma next_rowid_Inr:
  "next_rowid seq ids = Inr k \<longleftrightarrow>
     seq < 2 ^ 63 - 1 \<and> (\<forall>x \<in> set ids. x < 2 ^ 63 - 1) \<and> k = fold max ids seq + 1"
  using fold_max_less_iff [of ids seq "2 ^ 63 - 1"]
  by (auto simp: next_rowid_def Let_def)

lemma next_rowid_Inl:
  "next_rowid seq ids = Inl e \<longleftrightarrow>
     \<not> (seq < 2 ^ 63 - 1 \<and> (\<forall>x \<in> set ids. x < 2 ^ 63 - 1)) \<and> e = OperationalError"
  using fold_max_less_iff [of ids seq "2 ^ 63 - 1"]
  by (auto simp: next_rowid_def Let_def)

lemma next_rowid_fresh: "next_rowid seq ids = Inr k \<Longrightarrow> k \<notin> set ids"
proof
  assume r: "next_rowid seq ids = Inr k" and "k \<in> set ids"
  from r have "k = fold max ids seq + 1" by (simp add: next_rowid_Inr)
  moreover from \<open>k \<in> set ids\<close> have "k \<le> fold max ids seq" by (rule fold_max_ge_elem)
  ultimately show False by simp
qed

lemma find_fresh_append:
  "k \<notin> set (map key rows) \<Longrightarrow> key r = k \<Longrightarrow> find (\<lambda>x. key x = k) (rows @ [r]) = Some r"
  by (induction rows) auto

lemma find_sql_update_same:
  assumes "\<And>r. key (f r) = key r" and "find (\<lambda>x. key x = k) rows = Some r"
  shows "find (\<lambda>x. key x = k) (sql_update (\<lambda>x. key x = k) f rows) = Some (f r)"
  using assms(2) by (induction rows) (auto simp: sql_update_def assms(1) split: if_splits)


section \<open>Completing the dispensing\<close>

text \<open>
  C1. Claimed: for every existing visit, \<open>update_pharmacy_status_and_timeout\<close> with the
  target \<open>"Completed"\<close> sets \<open>pharmacy_status\<close> to \<open>"Completed"\<close>, stamps \<open>time_out\<close> with
  the clock reading and forces \<open>status\<close> to \<open>"Done"\<close>; any other target only rewrites
  \<open>pharmacy_status\<close>. In \<open>src/HMS.py\<close> the statement does not assign \<open>status\<close>: on the
  small database, completing visit 1 leaves its status \<open>"Visit Pharmacy"\<close>.
\<close>

theorem update_pharmacy_status_src_counterexample:
  "map v_status (visits (update_pharmacy_status_and_timeout demo_db ''12:30'' 1 (Some ''Completed'')))
     = [Some ''Visit Pharmacy'', Some ''Done'', Some ''Visit Pharmacy'', Some ''Scheduled'']
   \<and> map v_pharmacy_status
         (visits (update_pharmacy_status_and_timeout demo_db ''12:30'' 1 (Some ''Completed'')))
     = [Some ''Completed'', Some ''Completed'', Some ''Pending'', Some ''Not Applicable'']
   \<and> map v_id (visits demo_db) = [1, 2, 3, 4]"
  by (simp add: update_pharmacy_status_and_timeout_def sql_update_def demo_db_def
      demo_visit1_def demo_visit2_def demo_visit3_def demo_visit4_def)

text \<open>
  C1, as the code has it. For a stored visit \<open>v\<close> with key \<open>vid\<close>: with the target
  \<open>"Completed"\<close>, the method of \<open>src/HospitalManagementSystem-Python/HMS.py\<close> stores
  \<open>pharmacy_status = "Completed"\<close>, \<open>status = "Done"\<close> and \<open>time_out = now\<close>, and the
  method of \<open>src/HMS.py\<close> stores \<open>pharmacy_status = "Completed"\<close> and \<open>time_out = now\<close>
  and leaves \<open>status\<close> as it was; with any other target both store the target in
  \<open>pharmacy_status\<close> and change no other column of the row.
\<close>

theorem update_pharmacy_status_effect:
  assumes "visit_by_id d vid = Some v"
  shows "visit_by_id (update_pharmacy_status_and_timeout_sub d now vid (Some ''Completed'')) vid
           = Some (v\<lparr>v_pharmacy_status := Some ''Completed'', v_status := Some ''Done'',
                     v_time_out := Some now\<rparr>)
       \<and> visit_by_id (update_pharmacy_status_and_timeout d now vid (Some ''Completed'')) vid
           = Some (v\<lparr>v_pharmacy_status := Some ''Completed'', v_time_out := Some now\<rparr>)
       \<and> (s \<noteq> Some ''Completed'' \<longrightarrow>
            visit_by_id (update_pharmacy_status_and_timeout_sub d now vid s) vid
              = Some (v\<lparr>v_pharmacy_status := s\<rparr>)
          \<and> visit_by_id (update_pharmacy_status_and_timeout d now vid s) vid
              = Some (v\<lparr>v_pharmacy_status := s\<rparr>))"
proof -
  from assms have f: "find (\<lambda>x. v_id x = vid) (visits d) = Some v"
    by (simp add: visit_by_id_def)
  show ?thesis
    by (simp add: visit_by_id_def update_pharmacy_status_and_timeout_sub_def
        update_pharmacy_status_and_timeout_def find_sql_update_same [OF _ f])
qed

theorem update_pharmacy_status_effect_witness:
  "visit_by_id demo_db 1 = Some demo_visit1
   \<and> visit_by_id (update_pharmacy_status_and_timeout_sub demo_db ''12:30'' 1 (Some ''Completed'')) 1
       = Some (demo_visit1\<lparr>v_pharmacy_status := Some ''Completed'', v_status := Some ''Done'',
                 v_time_out := Some ''12:30''\<rparr>)
   \<and> visit_by_id (update_pharmacy_status_and_timeout_sub demo_db ''12:30'' 1 (Some ''On Hold'')) 1
       = Some (demo_visit1\<lparr>v_pharmacy_status := Some ''On Hold''\<rparr>)"
proof -
  have h: "visit_by_id demo_db 1 = Some demo_visit1"
    by (simp add: visit_by_id_def demo_db_def demo_visit1_def)
  show ?thesis
    using h update_pharmacy_status_effect [OF h, of "''12:30''" "Some ''On Hold''"] by simp
qed

section \<open>Creating a visit\<close>

lemma insert_visit_Inr:
  assumes "insert_visit d pid a dt ti tout sv st vj dn pi ps = Inr (vid, d')"
  shows "\<exists>p date_s. pid = Some p \<and> dt = Some date_s \<and> fits_int64 p \<and> bindable a
       \<and> next_rowid (visits_seq d) (map v_id (visits d)) = Inr vid
       \<and> d' = d\<lparr>visits := visits d @
                  [\<lparr>v_id = vid, v_patient_id = p, v_assigned_doctor_id = a, v_date = date_s,
                    v_time_in = ti, v_time_out = tout, v_service = sv, v_status = st,
                    v_vitals_json = vj, v_doctor_notes = dn, v_pharmacy_instructions = pi,
                    v_pharmacy_status = ps\<rparr>],
                visits_seq := vid\<rparr>"
  using assms
  by (auto simp: insert_visit_def bindable_def split: if_splits sum.splits option.splits)

lemma insert_visit_Inr_row:
  assumes "insert_visit d pid a dt ti tout sv st vj dn pi ps = Inr (vid, d')"
  shows "\<exists>v. visit_by_id d' vid = Some v \<and> v_id v = vid \<and> pid = Some (v_patient_id v)
       \<and> dt = Some (v_date v) \<and> v_status v = st \<and> v_pharmacy_status v = ps
       \<and> vid \<notin> set (map v_id (visits d)) \<and> butlast (visits d') = visits d
       \<and> length (visits d') = Suc (length (visits d))
       \<and> patients d' = patients d \<and> users d' = users d"
proof -
  from insert_visit_Inr [OF assms] obtain p date_s where
    "pid = Some p" "dt = Some date_s"
    and k: "next_rowid (visits_seq d) (map v_id (visits d)) = Inr vid"
    and d': "d' = d\<lparr>visits := visits d @
                  [\<lparr>v_id = vid, v_patient_id = p, v_assigned_doctor_id = a, v_date = date_s,
                    v_time_in = ti, v_time_out = tout, v_service = sv, v_status = st,
                    v_vitals_json = vj, v_doctor_notes = dn, v_pharmacy_instructions = pi,
                    v_pharmacy_status = ps\<rparr>],
                visits_seq := vid\<rparr>"
    by blast
  from k have "vid \<notin> set (map v_id (visits d))" by (rule next_rowid_fresh)
  with \<open>pid = Some p\<close> \<open>dt = Some date_s\<close> d' show ?thesis
    by (simp add: visit_by_id_def find_fresh_append)
qed

lemma insert_visit_succeeds:
  assumes "fits_int64 p" and "bindable a"
    and "visits_seq d < 2 ^ 63 - 1" and "\<forall>w \<in> set (visits d). v_id w < 2 ^ 63 - 1"
  shows "\<exists>vid d'. insert_visit d (Some p) a (Some date_s) ti tout sv st vj dn pi ps = Inr (vid, d')"
proof -
  from assms(3,4) obtain k where "next_rowid (visits_seq d) (map v_id (visits d)) = Inr k"
    by (auto simp: next_rowid_Inr)
  with assms(1,2) show ?thesis
    by (simp add: insert_visit_def bindable_def)
qed

lemma insert_visit_fails:
  "\<not> bindable pid \<or> \<not> bindable a
     \<Longrightarrow> insert_visit d pid a dt ti tout sv st vj dn pi ps = Inl OverflowError"
  "bindable pid \<Longrightarrow> bindable a
     \<Longrightarrow> \<not> (visits_seq d < 2 ^ 63 - 1 \<and> (\<forall>w \<in> set (visits d). v_id w < 2 ^ 63 - 1))
     \<Longrightarrow> insert_visit d pid a dt ti tout sv st vj dn pi ps = Inl OperationalError"
  "bindable pid \<Longrightarrow> bindable a
     \<Longrightarrow> visits_seq d < 2 ^ 63 - 1 \<and> (\<forall>w \<in> set (visits d). v_id w < 2 ^ 63 - 1)
     \<Longrightarrow> pid = None \<or> dt = None
     \<Longrightarrow> insert_visit d pid a dt ti tout sv st vj dn pi ps = Inl IntegrityError"
proof -
  show "\<not> bindable pid \<or> \<not> bindable a
     \<Longrightarrow> insert_visit d pid a dt ti tout sv st vj dn pi ps = Inl OverflowError"
    by (auto simp: insert_visit_def)
  show "bindable pid \<Longrightarrow> bindable a
     \<Longrightarrow> \<not> (visits_seq d < 2 ^ 63 - 1 \<and> (\<forall>w \<in> set (visits d). v_id w < 2 ^ 63 - 1))
     \<Longrightarrow> insert_visit d pid a dt ti tout sv st vj dn pi ps = Inl OperationalError"
  proof -
    assume b: "bindable pid" "bindable a"
      and f: "\<not> (visits_seq d < 2 ^ 63 - 1 \<and> (\<forall>w \<in> set (visits d). v_id w < 2 ^ 63 - 1))"
    from f have "next_rowid (visits_seq d) (map v_id (visits d)) = Inl OperationalError"
      by (simp add: next_rowid_Inl)
    with b show ?thesis by (simp add: insert_visit_def)
  qed
  show "bindable pid \<Longrightarrow> bindable a
     \<Longrightarrow> visits_seq d < 2 ^ 63 - 1 \<and> (\<forall>w \<in> set (visits d). v_id w < 2 ^ 63 - 1)
     \<Longrightarrow> pid = None \<or> dt = None
     \<Longrightarrow> insert_visit d pid a dt ti tout sv st vj dn pi ps = Inl IntegrityError"
  proof -
    assume b: "bindable pid" "bindable a"
      and r: "visits_seq d < 2 ^ 63 - 1 \<and> (\<forall>w \<in> set (visits d). v_id w < 2 ^ 63 - 1)"
      and n: "pid = None \<or> dt = None"
    from r obtain k where "next_rowid (visits_seq d) (map v_id (visits d)) = Inr k"
      by (auto simp: next_rowid_Inr)
    with b n show ?thesis by (auto simp: insert_visit_def split: option.splits)
  qed
qed

lemma demo_db_room:
  "visits_seq demo_db < 2 ^ 63 - 1" "\<forall>w \<in> set (visits demo_db). v_id w < 2 ^ 63 - 1"
  "patients_seq demo_db < 2 ^ 63 - 1" "\<forall>q \<in> set (patients demo_db). p_id q < 2 ^ 63 - 1"
  "map v_id (visits demo_db) = [1, 2, 3, 4]" "map p_id (patients demo_db) = [1, 2]"
  by (simp_all add: demo_db_def demo_visit1_def demo_visit2_def demo_visit3_def demo_visit4_def
      demo_patients_def demo_patient1_def demo_patient2_def)

text \<open>
  C2. Claimed: every visit created by \<open>add_visit\<close> starts with \<open>pharmacy_status\<close>
  \<open>"Pending"\<close> if the status given is \<open>"Visit Pharmacy"\<close> and \<open>"Not Applicable"\<close>
  otherwise. \<open>add_visit\<close> of \<open>src/HMS.py\<close> stores the constant \<open>"Pending"\<close>: a visit
  created with the status \<open>"Scheduled"\<close> starts with \<open>"Pending"\<close>.
\<close>

theorem add_visit_src_counterexample:
  "add_visit empty_db (Some 1) None (Some ''2024-03-11'') None None None (Some ''Scheduled'') None None None
     = Inr (1, \<lparr>users = [], patients = [],
                visits = [\<lparr>v_id = 1, v_patient_id = 1, v_assigned_doctor_id = None,
                           v_date = ''2024-03-11'', v_time_in = None, v_time_out = None,
                           v_service = None, v_status = Some ''Scheduled'', v_vitals_json = None,
                           v_doctor_notes = None, v_pharmacy_instructions = None,
                           v_pharmacy_status = Some ''Pending''\<rparr>],
                patients_seq = 0, visits_seq = 1\<rparr>)"
  by (simp add: add_visit_def insert_visit_def empty_db_def next_rowid_def dumps_if_def
      bindable_def fits_int64_def)

text \<open>
  C2, as the code has it. Every visit that \<open>add_visit\<close> of
  \<open>src/HospitalManagementSystem-Python/HMS.py\<close> creates has the status given and starts
  with \<open>pharmacy_status\<close> \<open>"Pending"\<close> if that status is \<open>"Visit Pharmacy"\<close> and
  \<open>"Not Applicable"\<close> otherwise; every visit that \<open>add_visit\<close> of \<open>src/HMS.py\<close> creates
  has the status given and starts with \<open>"Pending"\<close>. Both do create the visit when the
  patient id and the date are given, the ids fit 64 bits and the table has a row id
  left.
\<close>

theorem add_visit_initial_pharmacy_status:
  "(add_visit_sub d pid a dt ti tout sv st vd dn pi = Inr (vid, d') \<longrightarrow>
      (\<exists>v. visit_by_id d' vid = Some v \<and> v_status v = st
         \<and> v_pharmacy_status v =
             Some (if st = Some ''Visit Pharmacy'' then ''Pending'' else ''Not Applicable'')))
   \<and> (add_visit d pid a dt ti tout sv st vd dn pi = Inr (vid, d') \<longrightarrow>
      (\<exists>v. visit_by_id d' vid = Some v \<and> v_status v = st
         \<and> v_pharmacy_status v = Some ''Pending''))
   \<and> (fits_int64 p \<and> bindable a \<and> visits_seq d < 2 ^ 63 - 1
        \<and> (\<forall>w \<in> set (visits d). v_id w < 2 ^ 63 - 1) \<longrightarrow>
      (\<exists>k e. add_visit_sub d (Some p) a (Some date_s) ti tout sv st vd dn pi = Inr (k, e))
      \<and> (\<exists>k e. add_visit d (Some p) a (Some date_s) ti tout sv st vd dn pi = Inr (k, e)))"
proof (intro conjI impI)
  assume "add_visit_sub d pid a dt ti tout sv st vd dn pi = Inr (vid, d')"
  then have "insert_visit d pid a dt ti tout sv st (dumps_if vd) dn pi
       (Some (if st = Some ''Visit Pharmacy'' then ''Pending'' else ''Not Applicable'')) = Inr (vid, d')"
    by (simp add: add_visit_sub_def)
  from insert_visit_Inr_row [OF this]
  show "\<exists>v. visit_by_id d' vid = Some v \<and> v_status v = st
         \<and> v_pharmacy_status v =
             Some (if st = Some ''Visit Pharmacy'' then ''Pending'' else ''Not Applicable'')"
    by blast
next
  assume "add_visit d pid a dt ti tout sv st vd dn pi = Inr (vid, d')"
  then have "insert_visit d pid a dt ti tout sv st (dumps_if vd) dn pi (Some ''Pending'') = Inr (vid, d')"
    by (simp add: add_visit_def)
  from insert_visit_Inr_row [OF this]
  show "\<exists>v. visit_by_id d' vid = Some v \<and> v_status v = st \<and> v_pharmacy_status v = Some ''Pending''"
    by blast
next
  assume h: "fits_int64 p \<and> bindable a \<and> visits_seq d < 2 ^ 63 - 1
        \<and> (\<forall>w \<in> set (visits d). v_id w < 2 ^ 63 - 1)"
  then show "\<exists>k e. add_visit_sub d (Some p) a (Some date_s) ti tout sv st vd dn pi = Inr (k, e)"
    unfolding add_visit_sub_def by (intro insert_visit_succeeds) simp_all
next
  assume h: "fits_int64 p \<and> bindable a \<and> visits_seq d < 2 ^ 63 - 1
        \<and> (\<forall>w \<in> set (visits d). v_id w < 2 ^ 63 - 1)"
  then show "\<exists>k e. add_visit d (Some p) a (Some date_s) ti tout sv st vd dn pi = Inr (k, e)"
    unfolding add_visit_def by (intro insert_visit_succeeds) simp_all
qed

theorem add_visit_initial_pharmacy_status_witness:
  "fits_int64 1 \<and> bindable (Some 3) \<and> visits_seq demo_db < 2 ^ 63 - 1
   \<and> map v_id (visits demo_db) = [1, 2, 3, 4]
   \<and> (\<exists>vid d' v. add_visit_sub demo_db (Some 1) (Some 3) (Some ''2024-03-11'') (Some ''08:15'') None
         (Some ''Follow-up'') (Some ''Scheduled'') (Some []) None None = Inr (vid, d')
       \<and> visit_by_id d' vid = Some v \<and> v_status v = Some ''Scheduled''
       \<and> v_pharmacy_status v = Some ''Not Applicable'')"
proof -
  have f: "fits_int64 1" "bindable (Some 3)" by (simp_all add: fits_int64_def bindable_def)
  note r = demo_db_room(1,2,5)
  from add_visit_initial_pharmacy_status [where d = demo_db and p = 1 and a = "Some 3"
      and date_s = "''2024-03-11''" and ti = "Some ''08:15''" and tout = None
      and sv = "Some ''Follow-up''" and st = "Some ''Scheduled''" and vd = "Some []"
      and dn = None and pi = None] f r
  obtain k e where c: "add_visit_sub demo_db (Some 1) (Some 3) (Some ''2024-03-11'') (Some ''08:15'') None
         (Some ''Follow-up'') (Some ''Scheduled'') (Some []) None None = Inr (k, e)"
    by blast
  from add_visit_initial_pharmacy_status [where d = demo_db and pid = "Some 1" and a = "Some 3"
      and dt = "Some ''2024-03-11''" and ti = "Some ''08:15''" and tout = None
      and sv = "Some ''Follow-up''" and st = "Some ''Scheduled''" and vd = "Some []"
      and dn = None and pi = None and vid = k and d' = e] c
  have "\<exists>v. visit_by_id e k = Some v \<and> v_status v = Some ''Scheduled''
       \<and> v_pharmacy_status v = Some ''Not Applicable''"
    by simp
  with c f r show ?thesis by blast
qed

text \<open>
  C5. Claimed: \<open>add_visit\<close> fails with NotFound when the patient id names no patient,
  and then creates no visit. Neither file looks the patient up: with no patient in the
  database, both create visit 1 for patient 99.
\<close>

theorem add_visit_unknown_patient_counterexample:
  "patient_by_id empty_db 99 = None
   \<and> add_visit empty_db (Some 99) None (Some ''2024-03-11'') None None None (Some ''Scheduled'') None None None
     = Inr (1, \<lparr>users = [], patients = [],
                visits = [\<lparr>v_id = 1, v_patient_id = 99, v_assigned_doctor_id = None,
                           v_date = ''2024-03-11'', v_time_in = None, v_time_out = None,
                           v_service = None, v_status = Some ''Scheduled'', v_vitals_json = None,
                           v_doctor_notes = None, v_pharmacy_instructions = None,
                           v_pharmacy_status = Some ''Pending''\<rparr>],
                patients_seq = 0, visits_seq = 1\<rparr>)
   \<and> add_visit_sub empty_db (Some 99) None (Some ''2024-03-11'') None None None (Some ''Scheduled'') None None None
     = Inr (1, \<lparr>users = [], patients = [],
                visits = [\<lparr>v_id = 1, v_patient_id = 99, v_assigned_doctor_id = None,
                           v_date = ''2024-03-11'', v_time_in = None, v_time_out = None,
                           v_service = None, v_status = Some ''Scheduled'', v_vitals_json = None,
                           v_doctor_notes = None, v_pharmacy_instructions = None,
                           v_pharmacy_status = Some ''Not Applicable''\<rparr>],
                patients_seq = 0, visits_seq = 1\<rparr>)"
  by (simp add: add_visit_def add_visit_sub_def insert_visit_def empty_db_def next_rowid_def
      dumps_if_def patient_by_id_def bindable_def fits_int64_def)

text \<open>
  C5, as the code has it. For every patient id that fits 64 bits, whether a patient has
  that id or not, both methods create the visit under a key no stored visit has and
  leave the stored visits as they were, provided the doctor id can be bound and the
  table has a row id left (the counter and every stored key are below \<open>2^63 - 1\<close>).
  They fail in three ways, never for a missing patient: with \<open>OverflowError\<close> when the
  patient id or the doctor id is beyond 64 bits; else with \<open>sqlite3.OperationalError\<close>
  when no row id is left; else with \<open>sqlite3.IntegrityError\<close> when the patient id or
  the date is \<open>None\<close>.
\<close>

theorem add_visit_no_patient_check:
  "(fits_int64 p \<and> bindable a \<and> visits_seq d < 2 ^ 63 - 1
      \<and> (\<forall>w \<in> set (visits d). v_id w < 2 ^ 63 - 1) \<longrightarrow>
      (\<exists>vid d' v. add_visit d (Some p) a (Some date_s) ti tout sv st vd dn pi = Inr (vid, d')
         \<and> visit_by_id d' vid = Some v \<and> v_patient_id v = p
         \<and> vid \<notin> set (map v_id (visits d)) \<and> butlast (visits d') = visits d
         \<and> length (visits d') = Suc (length (visits d)))
      \<and> (\<exists>vid d' v. add_visit_sub d (Some p) a (Some date_s) ti tout sv st vd dn pi = Inr (vid, d')
         \<and> visit_by_id d' vid = Some v \<and> v_patient_id v = p
         \<and> vid \<notin> set (map v_id (visits d)) \<and> butlast (visits d') = visits d
         \<and> length (visits d') = Suc (length (visits d))))
   \<and> (\<not> bindable pid \<or> \<not> bindable a \<longrightarrow>
        add_visit d pid a dt ti tout sv st vd dn pi = Inl OverflowError
        \<and> add_visit_sub d pid a dt ti tout sv st vd dn pi = Inl OverflowError)
   \<and> (bindable pid \<and> bindable a
        \<and> \<not> (visits_seq d < 2 ^ 63 - 1 \<and> (\<forall>w \<in> set (visits d). v_id w < 2 ^ 63 - 1)) \<longrightarrow>
        add_visit d pid a dt ti tout sv st vd dn pi = Inl OperationalError
        \<and> add_visit_sub d pid a dt ti tout sv st vd dn pi = Inl OperationalError)
   \<and> (bindable pid \<and> bindable a
        \<and> visits_seq d < 2 ^ 63 - 1 \<and> (\<forall>w \<in> set (visits d). v_id w < 2 ^ 63 - 1)
        \<and> (pid = None \<or> dt = None) \<longrightarrow>
        add_visit d pid a dt ti tout sv st vd dn pi = Inl IntegrityError
        \<and> add_visit_sub d pid a dt ti tout sv st vd dn pi = Inl IntegrityError)"
proof -
  have ok: "\<exists>vid d' v. insert_visit d (Some p) a (Some date_s) ti tout sv st vj dn pi ps = Inr (vid, d')
         \<and> visit_by_id d' vid = Some v \<and> v_patient_id v = p
         \<and> vid \<notin> set (map v_id (visits d)) \<and> butlast (visits d') = visits d
         \<and> length (visits d') = Suc (length (visits d))"
    if h: "fits_int64 p \<and> bindable a \<and> visits_seq d < 2 ^ 63 - 1
      \<and> (\<forall>w \<in> set (visits d). v_id w < 2 ^ 63 - 1)" for vj ps
  proof -
    from h obtain vid d' where
      c: "insert_visit d (Some p) a (Some date_s) ti tout sv st vj dn pi ps = Inr (vid, d')"
      using insert_visit_succeeds by blast
    from insert_visit_Inr_row [OF c] c show ?thesis by auto
  qed
  show ?thesis
    unfolding add_visit_def add_visit_sub_def
    using ok insert_visit_fails [of pid a d dt ti tout sv st]
    by (intro conjI impI) blast+
qed

theorem add_visit_no_patient_check_witness:
  "patient_by_id demo_db 77 = None
   \<and> fits_int64 77 \<and> bindable None \<and> visits_seq demo_db < 2 ^ 63 - 1
   \<and> map v_id (visits demo_db) = [1, 2, 3, 4]
   \<and> (\<exists>vid d' v. add_visit demo_db (Some 77) None (Some ''2024-03-11'') None None None None None None None
          = Inr (vid, d')
       \<and> visit_by_id d' vid = Some v \<and> v_patient_id v = 77
       \<and> vid \<notin> set (map v_id (visits demo_db)) \<and> butlast (visits d') = visits demo_db
       \<and> length (visits d') = Suc (length (visits demo_db)))
   \<and> \<not> bindable (Some (2 ^ 63))
   \<and> add_visit demo_db (Some (2 ^ 63)) None (Some ''2024-03-11'') None None None None None None None
       = Inl OverflowError"
proof -
  have n: "patient_by_id demo_db 77 = None"
    by (simp add: patient_by_id_def demo_db_def demo_patients_def demo_patient1_def demo_patient2_def)
  have f: "fits_int64 77" "bindable None" "\<not> bindable (Some (2 ^ 63))"
    by (simp_all add: fits_int64_def bindable_def)
  note r = demo_db_room(1,2,5)
  from n f r add_visit_no_patient_check [of 77 None demo_db "''2024-03-11''" None None None None
      None None None "Some (2 ^ 63)" "Some ''2024-03-11''"]
  show ?thesis by blast
qed

section \<open>Registering a patient\<close>

text \<open>
  C6. Claimed: \<open>add_patient\<close> fails with ValidationError on an empty full name and
  creates no patient then; on success the creation time is stamped inside the call.
  \<open>add_patient\<close> does not look at the name: the empty name is stored. (The forms that
  call it check the name first.)
\<close>

theorem add_patient_empty_name_counterexample:
  "add_patient empty_db ''2024-03-11T09:00:00'' (Some '''') None None
     = Inr (1, \<lparr>users = [],
                patients = [\<lparr>p_id = 1, p_full_name = '''', p_address = None, p_dob = Some '''',
                             p_created_at = ''2024-03-11T09:00:00''\<rparr>],
                visits = [], patients_seq = 1, visits_seq = 0\<rparr>)"
  by (simp add: add_patient_def empty_db_def next_rowid_def str_or_def)

text \<open>
  C6, as the code has it. When the table has a row id left (the counter and every stored
  key are below \<open>2^63 - 1\<close>), \<open>add_patient\<close> stores, for every full name, the empty one
  included, a new patient under a key no stored patient has, with the name, the
  address, the date of birth (\<open>""\<close> when none is given) and, as creation time, the clock
  reading \<open>now\<close> taken inside the call, which is no argument of the method; with the name
  \<open>None\<close> it fails with \<open>sqlite3.IntegrityError\<close>. When no row id is left it fails with
  \<open>sqlite3.OperationalError\<close>, whatever the name. A failure stores nothing.
\<close>

theorem add_patient_stores:
  "(patients_seq d < 2 ^ 63 - 1 \<and> (\<forall>q \<in> set (patients d). p_id q < 2 ^ 63 - 1) \<longrightarrow>
      (\<exists>pid d'. add_patient d now (Some name) address dob = Inr (pid, d')
         \<and> patient_by_id d' pid =
             Some \<lparr>p_id = pid, p_full_name = name, p_address = address,
                   p_dob = Some (str_or dob ''''), p_created_at = now\<rparr>
         \<and> pid \<notin> set (map p_id (patients d))
         \<and> butlast (patients d') = patients d
         \<and> length (patients d') = Suc (length (patients d)))
      \<and> add_patient d now None address dob = Inl IntegrityError)
   \<and> (\<not> (patients_seq d < 2 ^ 63 - 1 \<and> (\<forall>q \<in> set (patients d). p_id q < 2 ^ 63 - 1)) \<longrightarrow>
        add_patient d now full_name address dob = Inl OperationalError)"
proof (intro conjI impI)
  assume r: "patients_seq d < 2 ^ 63 - 1 \<and> (\<forall>q \<in> set (patients d). p_id q < 2 ^ 63 - 1)"
  then obtain k where k: "next_rowid (patients_seq d) (map p_id (patients d)) = Inr k"
    by (auto simp: next_rowid_Inr)
  then have "k \<notin> set (map p_id (patients d))" by (rule next_rowid_fresh)
  with k show "\<exists>pid d'. add_patient d now (Some name) address dob = Inr (pid, d')
         \<and> patient_by_id d' pid =
             Some \<lparr>p_id = pid, p_full_name = name, p_address = address,
                   p_dob = Some (str_or dob ''''), p_created_at = now\<rparr>
         \<and> pid \<notin> set (map p_id (patients d))
         \<and> butlast (patients d') = patients d
         \<and> length (patients d') = Suc (length (patients d))"
    by (simp add: add_patient_def patient_by_id_def find_fresh_append)
  from k show "add_patient d now None address dob = Inl IntegrityError"
    by (simp add: add_patient_def)
next
  assume "\<not> (patients_seq d < 2 ^ 63 - 1 \<and> (\<forall>q \<in> set (patients d). p_id q < 2 ^ 63 - 1))"
  then have "next_rowid (patients_seq d) (map p_id (patients d)) = Inl OperationalError"
    by (simp add: next_rowid_Inl)
  then show "add_patient d now full_name address dob = Inl OperationalError"
    by (simp add: add_patient_def)
qed

theorem add_patient_stores_witness:
  "patients_seq demo_db < 2 ^ 63 - 1 \<and> map p_id (patients demo_db) = [1, 2]
   \<and> (\<exists>pid d'. add_patient demo_db ''2024-03-11T09:00:00'' (Some ''Ama Boateng'') None (Some ''1992-05-17'')
        = Inr (pid, d')
     \<and> patient_by_id d' pid =
         Some \<lparr>p_id = pid, p_full_name = ''Ama Boateng'', p_address = None,
               p_dob = Some ''1992-05-17'', p_created_at = ''2024-03-11T09:00:00''\<rparr>
     \<and> pid \<notin> set (map p_id (patients demo_db))
     \<and> butlast (patients d') = patients demo_db
     \<and> length (patients d') = Suc (length (patients demo_db)))"
proof -
  have s: "str_or (Some ''1992-05-17'') '''' = ''1992-05-17''" by (simp add: str_or_def)
  note r = demo_db_room(3,4,6)
  from r add_patient_stores [of demo_db "''2024-03-11T09:00:00''" "''Ama Boateng''" None
        "Some ''1992-05-17''"]
  show ?thesis unfolding s by blast
qed


section \<open>Updating a visit\<close>



text \<open>
  C4. Claimed: \<open>update_visit_status\<close> writes only the fields supplied, and an omitted
  doctor notes, pharmacy instructions or vitals argument keeps the stored value.
  \<open>update_visit_status\<close> of \<open>src/HMS.py\<close> assigns \<open>doctor_notes\<close> in both of its
  statements: called without notes, it replaces the stored notes of visit 1 by \<open>NULL\<close>.
\<close>

theorem update_visit_status_src_counterexample:
  "visit_by_id demo_db 1 = Some demo_visit1
   \<and> v_doctor_notes demo_visit1 = Some ''Needs medication review.''
   \<and> visit_by_id (update_visit_status demo_db 1 (Some ''In Progress'') None None) 1
       = Some (demo_visit1\<lparr>v_status := Some ''In Progress'', v_doctor_notes := None\<rparr>)"
  by (simp add: visit_by_id_def update_visit_status_def sql_update_def truthy_def demo_db_def
      demo_visit1_def demo_visit2_def demo_visit3_def demo_visit4_def)

text \<open>
  C4, as the code has it. For a stored visit with key \<open>vid\<close>, \<open>update_visit_status\<close> of
  \<open>src/HospitalManagementSystem-Python/HMS.py\<close> stores the new status and each of doctor
  notes, pharmacy instructions and vitals that is not \<open>None\<close>, and keeps the stored
  value of each that is \<open>None\<close>. \<open>update_visit_status\<close> of \<open>src/HMS.py\<close>, which has no
  vitals argument, stores the new status and the doctor notes as given (\<open>NULL\<close> when
  omitted), stores the pharmacy instructions when they are a non-empty text and keeps
  the stored ones otherwise. Both leave every other column of the row as it was.
\<close>

theorem update_visit_status_effect:
  assumes "visit_by_id d vid = Some v"
  shows "visit_by_id (update_visit_status_sub d vid st dn pi vd) vid
           = Some (v\<lparr>v_status := st,
                     v_doctor_notes := (case dn of None \<Rightarrow> v_doctor_notes v | Some n \<Rightarrow> Some n),
                     v_pharmacy_instructions :=
                       (case pi of None \<Rightarrow> v_pharmacy_instructions v | Some i \<Rightarrow> Some i),
                     v_vitals_json := (case vd of None \<Rightarrow> v_vitals_json v | Some j \<Rightarrow> Some j)\<rparr>)
       \<and> visit_by_id (update_visit_status d vid st dn pi) vid
           = Some (v\<lparr>v_status := st, v_doctor_notes := dn,
                     v_pharmacy_instructions :=
                       (if truthy pi then pi else v_pharmacy_instructions v)\<rparr>)"
proof -
  from assms have f: "find (\<lambda>x. v_id x = vid) (visits d) = Some v"
    by (simp add: visit_by_id_def)
  have sub: "visit_by_id (update_visit_status_sub d vid st dn pi vd) vid
           = Some (v\<lparr>v_status := st,
                     v_doctor_notes := (case dn of None \<Rightarrow> v_doctor_notes v | Some n \<Rightarrow> Some n),
                     v_pharmacy_instructions :=
                       (case pi of None \<Rightarrow> v_pharmacy_instructions v | Some i \<Rightarrow> Some i),
                     v_vitals_json := (case vd of None \<Rightarrow> v_vitals_json v | Some j \<Rightarrow> Some j)\<rparr>)"
    by (cases dn; cases pi; cases vd)
       (simp_all add: update_visit_status_sub_def visit_by_id_def find_sql_update_same [OF _ f])
  have src: "visit_by_id (update_visit_status d vid st dn pi) vid
           = Some (v\<lparr>v_status := st, v_doctor_notes := dn,
                     v_pharmacy_instructions :=
                       (if truthy pi then pi else v_pharmacy_instructions v)\<rparr>)"
    by (simp add: update_visit_status_def visit_by_id_def find_sql_update_same [OF _ f])
  show ?thesis using sub src by simp
qed

theorem update_visit_status_effect_witness:
  "visit_by_id demo_db 1 = Some demo_visit1
   \<and> visit_by_id (update_visit_status_sub demo_db 1 (Some ''In Progress'') None None None) 1
       = Some (demo_visit1\<lparr>v_status := Some ''In Progress''\<rparr>)
   \<and> visit_by_id (update_visit_status_sub demo_db 1 (Some ''Done'') (Some ''Rest.'') None None) 1
       = Some (demo_visit1\<lparr>v_status := Some ''Done'', v_doctor_notes := Some ''Rest.''\<rparr>)"
proof -
  have h: "visit_by_id demo_db 1 = Some demo_visit1"
    by (simp add: visit_by_id_def demo_db_def demo_visit1_def)
  show ?thesis
    using h update_visit_status_effect [OF h, of "Some ''In Progress''" None None None]
      update_visit_status_effect [OF h, of "Some ''Done''" "Some ''Rest.''" None None]
    by simp
qed

section \<open>Facts about the joins and the ordering\<close>

lemma set_inner_join:
  "set (inner_join c as bs) = {(a, b). a \<in> set as \<and> b \<in> set bs \<and> c a b}"
  by (auto simp: inner_join_def)

lemma set_left_join:
  "set (left_join c as bs) =
     {(a, Some b) | a b. a \<in> set as \<and> b \<in> set bs \<and> c a b}
     \<union> {(a, None) | a. a \<in> set as \<and> (\<forall>b \<in> set bs. \<not> c a b)}"
proof -
  have row: "set (case filter (c a) bs of [] \<Rightarrow> [(a, None)] | ms \<Rightarrow> map (\<lambda>b. (a, Some b)) ms) =
      {(a, Some b) | b. b \<in> set bs \<and> c a b} \<union> {(a, None) | x. x = a \<and> (\<forall>b \<in> set bs. \<not> c a b)}"
    for a
  proof (cases "filter (c a) bs")
    case Nil
    then have "\<forall>b \<in> set bs. \<not> c a b" by (simp add: filter_empty_conv)
    with Nil show ?thesis by auto
  next
    case (Cons m ms)
    then have "m \<in> set (filter (c a) bs)" by simp
    then have "\<exists>b \<in> set bs. c a b" by auto
    moreover have "set (map (\<lambda>b. (a, Some b)) (filter (c a) bs)) = {(a, Some b) | b. b \<in> set bs \<and> c a b}"
      by auto
    ultimately show ?thesis using Cons by (simp only: list.case) auto
  qed
  show ?thesis
    unfolding left_join_def set_concat set_map image_image row by blast
qed

lemma left_join_Some:
  "(a, Some b) \<in> set (left_join c as bs) \<longleftrightarrow> a \<in> set as \<and> b \<in> set bs \<and> c a b"
  by (auto simp: set_left_join)

lemma left_join_None:
  "(a, None) \<in> set (left_join c as bs) \<longleftrightarrow> a \<in> set as \<and> (\<forall>b \<in> set bs. \<not> c a b)"
  by (auto simp: set_left_join)

lemma fst_left_join: "fst ` set (left_join c as bs) = set as"
proof
  show "fst ` set (left_join c as bs) \<subseteq> set as"
    by (auto simp: set_left_join)
  show "set as \<subseteq> fst ` set (left_join c as bs)"
  proof
    fix a assume a: "a \<in> set as"
    show "a \<in> fst ` set (left_join c as bs)"
    proof (cases "\<exists>b \<in> set bs. c a b")
      case True
      then obtain b where "b \<in> set bs" "c a b" by blast
      with a have "(a, Some b) \<in> set (left_join c as bs)" by (simp add: left_join_Some)
      then show ?thesis by force
    next
      case False
      with a have "(a, None) \<in> set (left_join c as bs)" by (simp add: left_join_None)
      then show ?thesis by force
    qed
  qed
qed

lemma set_order_by_desc [simp]: "set (order_by_desc key rows) = set rows"
  by (simp add: order_by_desc_def)

lemma sorted_order_by_desc:
  "sorted_wrt (\<lambda>a b. key b \<le> key a) (order_by_desc key rows)"
proof -
  have "sorted (map key (sort_key key rows))" by simp
  then have "sorted_wrt (\<lambda>a b. key a \<le> key b) (sort_key key rows)"
    by (simp add: sorted_map)
  then show ?thesis
    by (simp add: order_by_desc_def sorted_wrt_rev)
qed

lemma set_visits_patients:
  "set (visits_patients d) =
     {(v, p). v \<in> set (visits d) \<and> p \<in> set (patients d) \<and> v_patient_id v = p_id p}"
  by (simp add: visits_patients_def set_inner_join)

lemma visits_patients_users_fst:
  "fst ` set (visits_patients_users d) = set (visits_patients d)"
  by (simp add: visits_patients_users_def fst_left_join)

lemma distinct_key_eq:
  "distinct (map key rows) \<Longrightarrow> a \<in> set rows \<Longrightarrow> b \<in> set rows \<Longrightarrow> key a = key b \<Longrightarrow> a = b"
  by (meson distinct_map inj_onD)

lemma to_visit_dict_simps [simp]:
  "visit_id (to_visit_dict (v, p)) = v_id v"
  "date (to_visit_dict (v, p)) = v_date v"
  "time_in (to_visit_dict (v, p)) = v_time_in v"
  by (simp_all add: to_visit_dict_def)

lemma to_pharmacy_dict_simps [simp]:
  "visit_id (to_pharmacy_dict ((v, p), n)) = v_id v"
  "date (to_pharmacy_dict ((v, p), n)) = v_date v"
  "time_in (to_pharmacy_dict ((v, p), n)) = v_time_in v"
  "status (to_pharmacy_dict ((v, p), n)) = v_status v"
  "pharmacy_status (to_pharmacy_dict ((v, p), n)) = v_pharmacy_status v"
  "patient_name (to_pharmacy_dict ((v, p), n)) = p_full_name p"
  by (simp_all add: to_pharmacy_dict_def)

lemma visits_patients_users_D:
  assumes "((v, p), u) \<in> set (visits_patients_users d)"
  shows "v \<in> set (visits d)" "p \<in> set (patients d)" "v_patient_id v = p_id p"
proof -
  from assms have "fst ((v, p), u) \<in> fst ` set (visits_patients_users d)" by (rule imageI)
  then have "(v, p) \<in> set (visits_patients d)" by (simp add: visits_patients_users_fst)
  then show "v \<in> set (visits d)" "p \<in> set (patients d)" "v_patient_id v = p_id p"
    by (simp_all add: set_visits_patients)
qed

lemma visits_patients_users_I:
  assumes "v \<in> set (visits d)" "p \<in> set (patients d)" "v_patient_id v = p_id p"
  shows "\<exists>u. ((v, p), u) \<in> set (visits_patients_users d)"
proof -
  from assms have "(v, p) \<in> set (visits_patients d)" by (simp add: set_visits_patients)
  then have "(v, p) \<in> fst ` set (visits_patients_users d)" by (simp add: visits_patients_users_fst)
  then show ?thesis by force
qed

lemma sorted_map_order_by_desc:
  assumes "\<And>a b. key b \<le> key a \<Longrightarrow> P (f a) (f b)"
  shows "sorted_wrt P (map f (order_by_desc key rows))"
proof -
  have "sorted_wrt (\<lambda>a b. key b \<le> key a) (order_by_desc key rows)"
    by (rule sorted_order_by_desc)
  then have "sorted_wrt (\<lambda>a b. P (f a) (f b)) (order_by_desc key rows)"
    by (rule sorted_wrt_mono_rel [rotated]) (rule assms)
  then show ?thesis by (simp add: sorted_wrt_map)
qed

lemma desc_order_key:
  "order_key w \<le> order_key v \<Longrightarrow> v_date w < v_date v \<or> (v_date w = v_date v \<and> v_time_in w \<le> v_time_in v)"
  by (auto simp: order_key_def)

section \<open>Visits without a patient\<close>

text \<open>
  C10. The key of \<open>visits\<close> being unique, a stored visit whose \<open>patient_id\<close> is the id
  of no patient has no row in the join with \<open>patients\<close>: \<open>get_visit\<close> returns \<open>None\<close> for
  it, and neither \<open>get_visits_for_doctor\<close>, for any doctor, nor
  \<open>get_visits_for_pharmacy\<close> lists it. All three return a value; none raises.
\<close>

theorem dangling_visit_invisible:
  assumes "v \<in> set (visits d)"
    and "v_patient_id v \<notin> p_id ` set (patients d)"
    and "distinct (map v_id (visits d))"
  shows "get_visit d (v_id v) = None
       \<and> v_id v \<notin> visit_id ` set (get_visits_for_doctor d doc_id)
       \<and> v_id v \<notin> visit_id ` set (get_visits_for_pharmacy d)"
proof -
  have no_pair: "v_id w \<noteq> v_id v" if "(w, p) \<in> set (visits_patients d)" for w p
  proof
    assume eq: "v_id w = v_id v"
    from that have w: "w \<in> set (visits d)" and p: "p \<in> set (patients d)"
      and m: "v_patient_id w = p_id p"
      by (simp_all add: set_visits_patients)
    from assms(3) w assms(1) eq have "w = v" by (rule distinct_key_eq)
    with m p assms(2) show False by auto
  qed
  have no_row: "v_id w \<noteq> v_id v" if "((w, p), u) \<in> set (visits_patients_users d)" for w p u
  proof -
    from that have "fst ((w, p), u) \<in> fst ` set (visits_patients_users d)" by (rule imageI)
    then have "(w, p) \<in> set (visits_patients d)" by (simp add: visits_patients_users_fst)
    then show ?thesis by (rule no_pair)
  qed
  have "filter (\<lambda>((w, p), u). v_id w = v_id v) (visits_patients_users d) = []"
    using no_row by (auto simp: filter_empty_conv)
  then have 1: "get_visit d (v_id v) = None"
    by (simp add: get_visit_def)
  have 2: "v_id v \<notin> visit_id ` set (get_visits_for_doctor d doc_id)"
  proof
    assume "v_id v \<in> visit_id ` set (get_visits_for_doctor d doc_id)"
    then obtain w p where "(w, p) \<in> set (visits_patients d)" and "v_id w = v_id v"
      by (auto simp: get_visits_for_doctor_def)
    then show False using no_pair by blast
  qed
  have 3: "v_id v \<notin> visit_id ` set (get_visits_for_pharmacy d)"
  proof
    assume "v_id v \<in> visit_id ` set (get_visits_for_pharmacy d)"
    then obtain w p u where "((w, p), u) \<in> set (visits_patients_users d)" and "v_id w = v_id v"
      by (auto simp: get_visits_for_pharmacy_def)
    then show False using no_row by blast
  qed
  from 1 2 3 show ?thesis by simp
qed

theorem dangling_visit_invisible_witness:
  "demo_visit3 \<in> set (visits demo_db)
   \<and> v_patient_id demo_visit3 \<notin> p_id ` set (patients demo_db)
   \<and> distinct (map v_id (visits demo_db))
   \<and> get_visit demo_db 3 = None
   \<and> 3 \<notin> visit_id ` set (get_visits_for_doctor demo_db 3)
   \<and> 3 \<notin> visit_id ` set (get_visits_for_pharmacy demo_db)"
proof -
  have a: "demo_visit3 \<in> set (visits demo_db)" by (simp add: demo_db_def)
  have b: "v_patient_id demo_visit3 \<notin> p_id ` set (patients demo_db)"
    by (simp add: demo_db_def demo_patients_def demo_patient1_def demo_patient2_def demo_visit3_def)
  have c: "distinct (map v_id (visits demo_db))"
    by (simp add: demo_db_def demo_visit1_def demo_visit2_def demo_visit3_def demo_visit4_def)
  have i: "v_id demo_visit3 = 3" by (simp add: demo_visit3_def)
  show ?thesis
    using a b c dangling_visit_invisible [OF a b c, of 3] by (simp add: i)
qed

section \<open>The pharmacy queue\<close>

text \<open>
  C3. Claimed: \<open>get_visits_for_pharmacy\<close> returns exactly the visits with
  \<open>pharmacy_status = "Pending"\<close> or \<open>status = "Visit Pharmacy"\<close>. Visit 3 of the small
  database has both and is not returned: its patient does not exist, and the query
  joins \<open>patients\<close>.
\<close>

theorem pharmacy_queue_dangling_counterexample:
  "demo_visit3 \<in> set (visits demo_db)
   \<and> v_pharmacy_status demo_visit3 = Some ''Pending''
   \<and> v_status demo_visit3 = Some ''Visit Pharmacy''
   \<and> v_id demo_visit3 = 3
   \<and> map visit_id (get_visits_for_pharmacy demo_db) = [1]"
  by (simp add: get_visits_for_pharmacy_def visits_patients_users_def visits_patients_def
      inner_join_def left_join_def order_by_desc_def for_pharmacy_def col_eq_def doctor_of_def
      demo_db_def demo_users_def demo_doctor_def demo_pharmacist_def demo_patients_def demo_patient1_def demo_patient2_def
      demo_visit1_def demo_visit2_def demo_visit3_def demo_visit4_def)

text \<open>
  C3, as the code has it. The key of \<open>visits\<close> being unique, a stored visit is in the
  result of \<open>get_visits_for_pharmacy\<close> exactly when its \<open>pharmacy_status\<close> is
  \<open>"Pending"\<close> or its \<open>status\<close> is \<open>"Visit Pharmacy"\<close>, and its \<open>patient_id\<close> is the id
  of a stored patient. Every dict of the result carries the key, date, time in, status
  and pharmacy status of a stored visit, and the result is ordered by date descending,
  then time in descending (a missing time in last).
\<close>

theorem pharmacy_queue_contents:
  assumes "distinct (map v_id (visits d))" and "v \<in> set (visits d)"
  shows "(v_id v \<in> visit_id ` set (get_visits_for_pharmacy d) \<longleftrightarrow>
            (v_pharmacy_status v = Some ''Pending'' \<or> v_status v = Some ''Visit Pharmacy'')
            \<and> v_patient_id v \<in> p_id ` set (patients d))
       \<and> (\<forall>r \<in> set (get_visits_for_pharmacy d).
             \<exists>w \<in> set (visits d). visit_id r = v_id w \<and> date r = v_date w \<and> time_in r = v_time_in w
                \<and> status r = v_status w \<and> pharmacy_status r = v_pharmacy_status w)
       \<and> sorted_wrt (\<lambda>a b. date b < date a \<or> (date b = date a \<and> time_in b \<le> time_in a))
            (get_visits_for_pharmacy d)"
proof -
  let ?rows = "filter (\<lambda>((w, p), u). for_pharmacy w) (visits_patients_users d)"
  have mem: "v_id v \<in> visit_id ` set (get_visits_for_pharmacy d) \<longleftrightarrow>
            (v_pharmacy_status v = Some ''Pending'' \<or> v_status v = Some ''Visit Pharmacy'')
            \<and> v_patient_id v \<in> p_id ` set (patients d)"
  proof
    assume "v_id v \<in> visit_id ` set (get_visits_for_pharmacy d)"
    then obtain w p u where row: "((w, p), u) \<in> set (visits_patients_users d)"
      and fp: "for_pharmacy w" and eq: "v_id w = v_id v"
      by (auto simp: get_visits_for_pharmacy_def)
    from row have w: "w \<in> set (visits d)" and p: "p \<in> set (patients d)"
      and m: "v_patient_id w = p_id p"
      by (rule visits_patients_users_D)+
    from assms(1) w assms(2) eq have "w = v" by (rule distinct_key_eq)
    with fp p m show "(v_pharmacy_status v = Some ''Pending'' \<or> v_status v = Some ''Visit Pharmacy'')
            \<and> v_patient_id v \<in> p_id ` set (patients d)"
      by (auto simp: for_pharmacy_def col_eq_def)
  next
    assume r: "(v_pharmacy_status v = Some ''Pending'' \<or> v_status v = Some ''Visit Pharmacy'')
            \<and> v_patient_id v \<in> p_id ` set (patients d)"
    then obtain p where p: "p \<in> set (patients d)" "v_patient_id v = p_id p" by auto
    with assms(2) obtain u where "((v, p), u) \<in> set (visits_patients_users d)"
      using visits_patients_users_I by blast
    moreover from r have "for_pharmacy v" by (auto simp: for_pharmacy_def col_eq_def)
    ultimately have "to_pharmacy_dict ((v, p), map_option u_name u) \<in> set (get_visits_for_pharmacy d)"
      by (force simp: get_visits_for_pharmacy_def)
    then have "visit_id (to_pharmacy_dict ((v, p), map_option u_name u))
        \<in> visit_id ` set (get_visits_for_pharmacy d)" by (rule imageI)
    then show "v_id v \<in> visit_id ` set (get_visits_for_pharmacy d)" by simp
  qed
  have rows: "\<forall>r \<in> set (get_visits_for_pharmacy d).
             \<exists>w \<in> set (visits d). visit_id r = v_id w \<and> date r = v_date w \<and> time_in r = v_time_in w
                \<and> status r = v_status w \<and> pharmacy_status r = v_pharmacy_status w"
  proof
    fix r assume "r \<in> set (get_visits_for_pharmacy d)"
    then obtain w p u where row: "((w, p), u) \<in> set (visits_patients_users d)"
      and r: "r = to_pharmacy_dict ((w, p), map_option u_name u)"
      by (auto simp: get_visits_for_pharmacy_def)
    from row have "w \<in> set (visits d)" by (rule visits_patients_users_D)
    with r show "\<exists>w \<in> set (visits d). visit_id r = v_id w \<and> date r = v_date w \<and> time_in r = v_time_in w
                \<and> status r = v_status w \<and> pharmacy_status r = v_pharmacy_status w"
      by auto
  qed
  have sorted: "sorted_wrt (\<lambda>a b. date b < date a \<or> (date b = date a \<and> time_in b \<le> time_in a))
            (get_visits_for_pharmacy d)"
    unfolding get_visits_for_pharmacy_def
    by (rule sorted_map_order_by_desc) (auto dest: desc_order_key)
  from mem rows sorted show ?thesis by blast
qed

theorem pharmacy_queue_contents_witness:
  "distinct (map v_id (visits demo_db))
   \<and> demo_visit1 \<in> set (visits demo_db)
   \<and> v_pharmacy_status demo_visit1 = Some ''Pending''
   \<and> v_patient_id demo_visit1 \<in> p_id ` set (patients demo_db)
   \<and> v_id demo_visit1 \<in> visit_id ` set (get_visits_for_pharmacy demo_db)
   \<and> sorted_wrt (\<lambda>a b. date b < date a \<or> (date b = date a \<and> time_in b \<le> time_in a))
        (get_visits_for_pharmacy demo_db)"
proof -
  have c: "distinct (map v_id (visits demo_db))"
    by (simp add: demo_db_def demo_visit1_def demo_visit2_def demo_visit3_def demo_visit4_def)
  have a: "demo_visit1 \<in> set (visits demo_db)" by (simp add: demo_db_def)
  have s: "v_pharmacy_status demo_visit1 = Some ''Pending''" by (simp add: demo_visit1_def)
  have p: "v_patient_id demo_visit1 \<in> p_id ` set (patients demo_db)"
    by (simp add: demo_db_def demo_patients_def demo_patient1_def demo_patient2_def demo_visit1_def)
  from pharmacy_queue_contents [OF c a] c a s p show ?thesis by blast
qed

section \<open>Searching visits\<close>









section \<open>Facts about dates and their ISO text\<close>










lemma length_two_digits [simp]: "length (two_digits n) = 2"
  by (simp add: two_digits_def)

lemma length_four_digits [simp]: "length (four_digits n) = 4"
  by (simp add: four_digits_def)



















section \<open>The visit history of a patient\<close>

lemma to_history_dict_simps [simp]:
  "id_h (to_history_dict (v, u)) = v_id v"
  "date (to_history_dict (v, u)) = v_date v"
  "time_in (to_history_dict (v, u)) = v_time_in v"
  by (simp_all add: to_history_dict_def)








lemma prev_day_none:
  assumes "valid_date dt" and "\<not> (1, 1, 1) < date_key dt"
  shows "prev_day dt = None"
  using assms by (auto simp: prev_day_def valid_date_def date_key_def)









end
